theory Spec2Isabelle
  imports Complex_Main "HOL-Library.Sublist"
begin

section \<open>JavaScript values used by the resolver\<close>

text \<open>
  The three source files (\<^verbatim>\<open>src/unnamed/part_000\<close>, \<^verbatim>\<open>src/unnamed/part_001\<close>,
  \<^verbatim>\<open>src/api/audio.js\<close>) are three versions of one serverless function. The composite
  scorer exists in \<^verbatim>\<open>part_000\<close> only; the request handler and the two instance adapters
  are the same text in all three, up to logging and the list of Stremio instances.

  Strings are byte strings. Case mapping and white space are modelled on the ASCII range.
  Numbers are exact rationals together with \<open>NaN\<close>: the rounding of IEEE doubles is not
  modelled, and no infinity can arise in the code modelled here (the only division by a
  variable is \<open>matchedArtists / authorNames.length\<close>, where a zero divisor comes with a zero
  dividend).
\<close>

subsection \<open>Strings\<close>

definition lowerChar :: "char \<Rightarrow> char" where
  "lowerChar c =
     (let n = (of_char c :: nat) in if 65 \<le> n \<and> n \<le> 90 then char_of (n + 32) else c)"

definition toLowerCase :: "string \<Rightarrow> string" where
  "toLowerCase s = map lowerChar s"

definition isSpace :: "char \<Rightarrow> bool" where
  "isSpace c = (let n = (of_char c :: nat) in n = 32 \<or> (9 \<le> n \<and> n \<le> 13))"

definition trim :: "string \<Rightarrow> string" where
  "trim s = rev (dropWhile isSpace (rev (dropWhile isSpace s)))"

text \<open>\<^verbatim>\<open>s.replace(/\s+/g, '')\<close>\<close>

definition stripSpaces :: "string \<Rightarrow> string" where
  "stripSpaces s = filter (\<lambda>c. \<not> isSpace c) s"

text \<open>\<^verbatim>\<open>s.split(/[,&]/)\<close>: the pieces between separators, empty pieces included.\<close>

fun splitOn :: "(char \<Rightarrow> bool) \<Rightarrow> string \<Rightarrow> string list" where
  "splitOn P [] = [[]]"
| "splitOn P (c # cs) =
     (if P c then [] # splitOn P cs
      else (case splitOn P cs of [] \<Rightarrow> [[c]] | w # ws \<Rightarrow> (c # w) # ws))"

definition isArtistSep :: "char \<Rightarrow> bool" where
  "isArtistSep c = (c = CHR '','' \<or> c = CHR ''&'')"

fun startsWith :: "string \<Rightarrow> string \<Rightarrow> bool" where
  "startsWith s [] = True"
| "startsWith [] (p # ps) = False"
| "startsWith (c # cs) (p # ps) = (c = p \<and> startsWith cs ps)"

text \<open>\<^verbatim>\<open>s.includes(p)\<close>: \<open>p\<close> occurs in \<open>s\<close> as a contiguous substring.\<close>

fun str_includes :: "string \<Rightarrow> string \<Rightarrow> bool" where
  "str_includes [] p = (p = [])"
| "str_includes (c # cs) p = (startsWith (c # cs) p \<or> str_includes cs p)"

text \<open>\<^verbatim>\<open>xs.join(sep)\<close>\<close>

fun join :: "string \<Rightarrow> string list \<Rightarrow> string" where
  "join sep [] = []"
| "join sep [x] = x"
| "join sep (x # y # ys) = x @ sep @ join sep (y # ys)"

text \<open>Truthiness of an optional query parameter: present and not the empty string.\<close>

fun truthy :: "string option \<Rightarrow> bool" where
  "truthy None = False"
| "truthy (Some s) = (s \<noteq> [])"

subsection \<open>Numbers\<close>

datatype jsnum = NaN | Num rat

fun jadd :: "jsnum \<Rightarrow> jsnum \<Rightarrow> jsnum" where
  "jadd (Num a) (Num b) = Num (a + b)"
| "jadd _ _ = NaN"

fun jsub :: "jsnum \<Rightarrow> jsnum \<Rightarrow> jsnum" where
  "jsub (Num a) (Num b) = Num (a - b)"
| "jsub _ _ = NaN"

fun jmul :: "jsnum \<Rightarrow> jsnum \<Rightarrow> jsnum" where
  "jmul (Num a) (Num b) = Num (a * b)"
| "jmul _ _ = NaN"

text \<open>Division, for the two uses in the code: by the constant 60 and \<open>0 / 0\<close>.\<close>

fun jdiv :: "jsnum \<Rightarrow> jsnum \<Rightarrow> jsnum" where
  "jdiv (Num a) (Num b) = (if b = 0 then NaN else Num (a / b))"
| "jdiv _ _ = NaN"

fun jabs :: "jsnum \<Rightarrow> jsnum" where
  "jabs (Num a) = Num \<bar>a\<bar>"
| "jabs NaN = NaN"

text \<open>\<^verbatim>\<open>Math.max(a, b)\<close> is \<open>NaN\<close> as soon as one argument is.\<close>

fun jmax :: "jsnum \<Rightarrow> jsnum \<Rightarrow> jsnum" where
  "jmax (Num a) (Num b) = Num (max a b)"
| "jmax _ _ = NaN"

text \<open>Every comparison with \<open>NaN\<close> is false.\<close>

fun jge :: "jsnum \<Rightarrow> jsnum \<Rightarrow> bool" where
  "jge (Num a) (Num b) = (a \<ge> b)"
| "jge _ _ = False"

fun jgt :: "jsnum \<Rightarrow> jsnum \<Rightarrow> bool" where
  "jgt (Num a) (Num b) = (a > b)"
| "jgt _ _ = False"

fun jlt :: "jsnum \<Rightarrow> jsnum \<Rightarrow> bool" where
  "jlt (Num a) (Num b) = (a < b)"
| "jlt _ _ = False"

text \<open>
  \<^verbatim>\<open>parseInt(s)\<close> without a radix: leading white space is skipped, a sign is read, a
  \<^verbatim>\<open>0x\<close> prefix selects base 16, the longest run of digits is taken, and the result is
  \<open>NaN\<close> when that run is empty.
\<close>

definition digitVal :: "char \<Rightarrow> nat option" where
  "digitVal c =
     (let n = (of_char c :: nat) in
      if 48 \<le> n \<and> n \<le> 57 then Some (n - 48)
      else if 97 \<le> n \<and> n \<le> 102 then Some (n - 87)
      else if 65 \<le> n \<and> n \<le> 70 then Some (n - 55)
      else None)"

definition isDigitIn :: "nat \<Rightarrow> char \<Rightarrow> bool" where
  "isDigitIn radix c = (case digitVal c of None \<Rightarrow> False | Some d \<Rightarrow> d < radix)"

fun digitsValue :: "nat \<Rightarrow> string \<Rightarrow> nat \<Rightarrow> nat" where
  "digitsValue radix [] acc = acc"
| "digitsValue radix (c # cs) acc =
     digitsValue radix cs (acc * radix + (case digitVal c of None \<Rightarrow> 0 | Some d \<Rightarrow> d))"

definition parseInt :: "string \<Rightarrow> jsnum" where
  "parseInt str =
     (let s = dropWhile isSpace str;
          neg = startsWith s ''-'';
          s1 = (if startsWith s ''-'' \<or> startsWith s ''+'' then tl s else s);
          hex = (startsWith s1 ''0x'' \<or> startsWith s1 ''0X'');
          radix = (if hex then 16 else 10);
          s2 = (if hex then drop 2 s1 else s1);
          z = takeWhile (isDigitIn radix) s2
      in if z = [] then NaN
         else Num ((if neg then - 1 else 1) * of_nat (digitsValue radix z 0)))"

section \<open>Search hits of the metadata service\<close>

datatype artist = Artist (aname: string)

record artists_obj =
  primary :: "artist list option"
  featured :: "artist list option"
  all_artists :: "artist list option"

datatype variant = Variant (quality: string) (vurl: string)

record candidate =
  c_name :: string
  c_artists :: "artists_obj option"
  c_duration :: "int option"
  c_downloadUrl :: "variant list option"
  c_image :: "variant list option"
  c_url :: string

text \<open>\<^verbatim>\<open>result.artists?.primary\<close> and \<^verbatim>\<open>result.artists?.featured\<close>\<close>

definition primaryOf :: "candidate \<Rightarrow> artist list option" where
  "primaryOf r = (case c_artists r of None \<Rightarrow> None | Some a \<Rightarrow> primary a)"

definition featuredOf :: "candidate \<Rightarrow> artist list option" where
  "featuredOf r = (case c_artists r of None \<Rightarrow> None | Some a \<Rightarrow> featured a)"

text \<open>\<^verbatim>\<open>xs?.map(f) || []\<close>: an absent list counts as empty (an empty array is truthy).\<close>

definition mapOrEmpty :: "('a \<Rightarrow> 'b) \<Rightarrow> 'a list option \<Rightarrow> 'b list" where
  "mapOrEmpty f xs = (case xs of None \<Rightarrow> [] | Some l \<Rightarrow> map f l)"

datatype failure =
    NetworkFailure
  | TimeoutFailure
  | UpstreamStatusFailure nat
  | MalformedResponseFailure
  | NoResults
  | NoConfidentMatch
  | ExhaustedFailure string
  | TypeError

section \<open>The candidate scorer of \<^verbatim>\<open>part_000\<close> (lines 63 to 135 of \<^verbatim>\<open>searchJioSaavn\<close>)\<close>

definition authorNames :: "string \<Rightarrow> string list" where
  "authorNames author =
     filter (\<lambda>a. length a > 0) (map trim (splitOn isArtistSep (toLowerCase author)))"

definition currentArtists :: "candidate \<Rightarrow> string list" where
  "currentArtists result =
     mapOrEmpty (\<lambda>a. toLowerCase (aname a)) (primaryOf result) @
     mapOrEmpty (\<lambda>a. toLowerCase (aname a)) (featuredOf result)"

definition artistFound :: "string \<Rightarrow> string list \<Rightarrow> bool" where
  "artistFound authName arts =
     list_ex (\<lambda>artist.
        let cleanAuth = toLowerCase (stripSpaces authName);
            cleanArtist = toLowerCase (stripSpaces artist)
        in str_includes cleanArtist cleanAuth \<or> str_includes cleanAuth cleanArtist) arts"

text \<open>The inner loop over \<open>authorNames\<close>, with the counter \<open>matchedArtists\<close>.\<close>

fun countMatched :: "string list \<Rightarrow> string list \<Rightarrow> nat \<Rightarrow> nat" where
  "countMatched [] arts matchedArtists = matchedArtists"
| "countMatched (authName # rest) arts matchedArtists =
     countMatched rest arts
       (if artistFound authName arts then matchedArtists + 1 else matchedArtists)"

definition artistMatchPercent :: "string list \<Rightarrow> candidate \<Rightarrow> jsnum" where
  "artistMatchPercent names result =
     jdiv (Num (of_nat (countMatched names (currentArtists result) 0)))
          (Num (of_nat (length names)))"

text \<open>\<^verbatim>\<open>result.duration ? Math.abs(result.duration - targetDuration) : 999\<close>:
  an absent duration and the duration 0 are both falsy.\<close>

definition durationDiff :: "jsnum \<Rightarrow> candidate \<Rightarrow> jsnum" where
  "durationDiff targetDuration result =
     (case c_duration result of
        None \<Rightarrow> Num 999
      | Some d \<Rightarrow> if d = 0 then Num 999 else jabs (jsub (Num (of_int d)) targetDuration))"

definition durationScore :: "jsnum \<Rightarrow> candidate \<Rightarrow> jsnum" where
  "durationScore targetDuration result =
     jmax (Num 0) (jsub (Num 1) (jdiv (durationDiff targetDuration result) (Num 60)))"

definition titleMatch :: "string \<Rightarrow> candidate \<Rightarrow> jsnum" where
  "titleMatch title result =
     (if str_includes (toLowerCase (c_name result)) (toLowerCase title) \<or>
         str_includes (toLowerCase title) (toLowerCase (c_name result))
      then Num 1 else Num (1 / 2))"

definition score :: "string \<Rightarrow> string list \<Rightarrow> jsnum \<Rightarrow> candidate \<Rightarrow> jsnum" where
  "score title names targetDuration result =
     jadd (jadd (jmul (artistMatchPercent names result) (Num 10))
                (jmul (durationScore targetDuration result) (Num 3)))
          (jmul (titleMatch title result) (Num 1))"

text \<open>The guard of line 118.\<close>

definition eligible :: "string list \<Rightarrow> jsnum \<Rightarrow> candidate \<Rightarrow> bool" where
  "eligible names targetDuration result =
     (jge (artistMatchPercent names result) (Num (1 / 2)) \<or>
      jlt (durationDiff targetDuration result) (Num 10))"

text \<open>The loop over the results, carrying \<open>bestMatch\<close> and \<open>bestScore\<close>.\<close>

fun scanResults ::
  "string \<Rightarrow> string list \<Rightarrow> jsnum \<Rightarrow> candidate list \<Rightarrow>
   candidate option \<times> jsnum \<Rightarrow> candidate option \<times> jsnum" where
  "scanResults title names targetDuration [] best = best"
| "scanResults title names targetDuration (result # rest) (bestMatch, bestScore) =
     scanResults title names targetDuration rest
       (if eligible names targetDuration result then
          (if jgt (score title names targetDuration result) bestScore
           then (Some result, score title names targetDuration result)
           else (bestMatch, bestScore))
        else (bestMatch, bestScore))"

text \<open>
  The selection among a list of results. The caller has checked that the list is not
  empty; on an empty list \<^verbatim>\<open>results[0]\<close> is \<^verbatim>\<open>undefined\<close> and the next property access
  throws.
\<close>

definition firstResult :: "candidate list \<Rightarrow> failure + candidate" where
  "firstResult results = (case results of [] \<Rightarrow> Inl TypeError | r # _ \<Rightarrow> Inr r)"

definition fullScoring :: "string \<Rightarrow> string \<Rightarrow> string \<Rightarrow> candidate list \<Rightarrow> failure + candidate" where
  "fullScoring title author duration results =
     (let targetDuration = parseInt duration;
          names = authorNames author
      in case scanResults title names targetDuration results (None, Num (- 1)) of
           (None, bestScore) \<Rightarrow> Inl NoConfidentMatch
         | (Some bestMatch, bestScore) \<Rightarrow>
             if jlt bestScore (Num 5) then Inl NoConfidentMatch else Inr bestMatch)"

definition selectBest ::
  "string \<Rightarrow> string option \<Rightarrow> string option \<Rightarrow> candidate list \<Rightarrow> failure + candidate" where
  "selectBest title author duration results =
     (case (author, duration) of
        (Some a, Some d) \<Rightarrow>
          if a \<noteq> [] \<and> d \<noteq> [] then fullScoring title a d results else firstResult results
      | _ \<Rightarrow> firstResult results)"

text \<open>Lines 137 to 163: the result derived from the selected candidate.\<close>

record saavn_result =
  r_source :: string
  r_title :: string
  r_artist :: string
  r_duration :: "int option"
  r_thumbnail :: "string option"
  r_downloadUrl :: "string option"
  r_url :: string

text \<open>\<^verbatim>\<open>xs && xs.length > 0 ? xs[xs.length - 1].url : null\<close>\<close>

definition lastUrl :: "variant list option \<Rightarrow> string option" where
  "lastUrl xs =
     (case xs of None \<Rightarrow> None
      | Some l \<Rightarrow> if length l > 0 then Some (vurl (l ! (length l - 1))) else None)"

definition artistString :: "candidate \<Rightarrow> string" where
  "artistString bestMatch =
     (let primaryArtists = mapOrEmpty aname (primaryOf bestMatch);
          featuredArtists = mapOrEmpty aname (featuredOf bestMatch);
          allArtistNames = primaryArtists @ featuredArtists
      in if length allArtistNames > 0 then join '', '' allArtistNames else ''Unknown'')"

definition deriveResult :: "candidate \<Rightarrow> saavn_result" where
  "deriveResult bestMatch =
     \<lparr> r_source = ''saavn'',
       r_title = c_name bestMatch,
       r_artist = artistString bestMatch,
       r_duration = c_duration bestMatch,
       r_thumbnail = lastUrl (c_image bestMatch),
       r_downloadUrl = lastUrl (c_downloadUrl bestMatch),
       r_url = c_url bestMatch \<rparr>"

section \<open>The selections of the two other versions\<close>

datatype version = Part000 | Part001 | AudioJs

text \<open>
  \<^verbatim>\<open>src/api/audio.js\<close>, lines 57 to 68: the first result, unless a duration is given and
  there are several results; then \<^verbatim>\<open>reduce\<close> without a start value keeps the result whose
  duration is closest to the target.
\<close>

definition closerDuration :: "jsnum \<Rightarrow> candidate \<Rightarrow> candidate \<Rightarrow> candidate" where
  "closerDuration targetDuration best current =
     (case (c_duration current, c_duration best) of
        (Some cd, Some bd) \<Rightarrow>
          if cd = 0 \<or> bd = 0 then best
          else if jlt (jabs (jsub (Num (of_int cd)) targetDuration))
                      (jabs (jsub (Num (of_int bd)) targetDuration))
               then current else best
      | _ \<Rightarrow> best)"

definition selectBest_audio ::
  "string \<Rightarrow> string option \<Rightarrow> string option \<Rightarrow> candidate list \<Rightarrow> failure + candidate" where
  "selectBest_audio title author duration results =
     (case results of
        [] \<Rightarrow> Inl TypeError
      | r # rest \<Rightarrow>
          (case duration of
             Some d \<Rightarrow>
               if d \<noteq> [] \<and> length results > 1
               then Inr (foldl (closerDuration (parseInt d)) r rest) else Inr r
           | None \<Rightarrow> Inr r))"

text \<open>
  \<^verbatim>\<open>src/unnamed/part_001\<close>, lines 63 to 98: the first result, unless author and duration
  are given and there are several results.
\<close>

definition authorNames_part001 :: "string \<Rightarrow> string list" where
  "authorNames_part001 author = map trim (splitOn isArtistSep (toLowerCase author))"

definition artistMatch_part001 :: "string list \<Rightarrow> candidate \<Rightarrow> bool" where
  "artistMatch_part001 names current =
     list_ex (\<lambda>authName.
        list_ex (\<lambda>artist. str_includes artist authName \<or> str_includes authName artist)
          (currentArtists current)) names"

definition durationDiff_part001 :: "jsnum \<Rightarrow> candidate \<Rightarrow> jsnum" where
  "durationDiff_part001 targetDuration result =
     (case c_duration result of
        None \<Rightarrow> Num 99999
      | Some d \<Rightarrow> if d = 0 then Num 99999 else jabs (jsub (Num (of_int d)) targetDuration))"

definition better_part001 :: "string list \<Rightarrow> jsnum \<Rightarrow> candidate \<Rightarrow> candidate \<Rightarrow> candidate" where
  "better_part001 names targetDuration best current =
     (let currentDiff = durationDiff_part001 targetDuration current;
          bestDiff = durationDiff_part001 targetDuration best
      in if artistMatch_part001 names current \<and> jlt currentDiff (Num 30) then current
         else if jlt currentDiff bestDiff then current
         else best)"

definition selectBest_part001 ::
  "string \<Rightarrow> string option \<Rightarrow> string option \<Rightarrow> candidate list \<Rightarrow> failure + candidate" where
  "selectBest_part001 title author duration results =
     (case results of
        [] \<Rightarrow> Inl TypeError
      | r # rest \<Rightarrow>
          (case (author, duration) of
             (Some a, Some d) \<Rightarrow>
               if a \<noteq> [] \<and> d \<noteq> [] \<and> length results > 1
               then Inr (foldl (better_part001 (authorNames_part001 a) (parseInt d)) r rest)
               else Inr r
           | _ \<Rightarrow> Inr r))"

fun selection ::
  "version \<Rightarrow> string \<Rightarrow> string option \<Rightarrow> string option \<Rightarrow> candidate list \<Rightarrow>
   failure + candidate" where
  "selection Part000 = selectBest"
| "selection Part001 = selectBest_part001"
| "selection AudioJs = selectBest_audio"

text \<open>
  \<^verbatim>\<open>src/api/audio.js\<close>, lines 80 to 83:
  \<^verbatim>\<open>primary?.map(a => a.name).join(', ') || all?.map(a => a.name).join(', ') || 'Unknown'\<close>.
  An absent list and an empty joined string are both falsy.
\<close>

definition allOf :: "candidate \<Rightarrow> artist list option" where
  "allOf r = (case c_artists r of None \<Rightarrow> None | Some a \<Rightarrow> all_artists a)"

definition joinedNames :: "artist list option \<Rightarrow> string option" where
  "joinedNames xs = (case xs of None \<Rightarrow> None | Some l \<Rightarrow> Some (join '', '' (map aname l)))"

text \<open>\<^verbatim>\<open>a || b\<close> on an optional string \<open>a\<close>.\<close>

fun orElse :: "string option \<Rightarrow> string \<Rightarrow> string" where
  "orElse None b = b"
| "orElse (Some a) b = (if a = [] then b else a)"

definition artistString_audio :: "candidate \<Rightarrow> string" where
  "artistString_audio bestMatch =
     orElse (joinedNames (primaryOf bestMatch))
       (orElse (joinedNames (allOf bestMatch)) ''Unknown'')"

definition deriveResult_audio :: "candidate \<Rightarrow> saavn_result" where
  "deriveResult_audio bestMatch =
     \<lparr> r_source = ''saavn'',
       r_title = c_name bestMatch,
       r_artist = artistString_audio bestMatch,
       r_duration = c_duration bestMatch,
       r_thumbnail = lastUrl (c_image bestMatch),
       r_downloadUrl = lastUrl (c_downloadUrl bestMatch),
       r_url = c_url bestMatch \<rparr>"

fun derivation :: "version \<Rightarrow> candidate \<Rightarrow> saavn_result" where
  "derivation Part000 = deriveResult"
| "derivation Part001 = deriveResult"
| "derivation AudioJs = deriveResult_audio"

section \<open>Upstream services\<close>

record saavn_data =
  sd_results :: "candidate list option"

record saavn_body =
  sb_success :: bool
  sb_data :: "saavn_data option"

datatype json = SearchJson saavn_body | OtherJson string

text \<open>A response: its status and its body, \<open>None\<close> when the body does not parse as JSON.\<close>

record response =
  rs_status :: nat
  rs_body :: "json option"

definition ok :: "response \<Rightarrow> bool" where
  "ok r = (200 \<le> rs_status r \<and> rs_status r \<le> 299)"

text \<open>
  What an endpoint does with one request: it answers after so many milliseconds, the
  transport fails, or it never answers. The world decides from everything that has
  happened so far in the request, so that the same URL may behave differently when it is
  asked again.
\<close>

datatype upstream = Responds nat response | Fails | Silent

datatype strategy = JioSaavn | Stremio | Invidious

text \<open>
  The trace of a request: \<open>Trying s\<close> is written where the handler logs that it enters
  strategy \<open>s\<close>, \<open>Fetch u\<close> where \<^verbatim>\<open>fetchWithTimeout\<close> sends a request to the URL \<open>u\<close>.
\<close>

datatype event = Trying strategy | Fetch string

type_synonym world = "event list \<Rightarrow> string \<Rightarrow> upstream"

definition fetchWithTimeout ::
  "world \<Rightarrow> string \<Rightarrow> nat \<Rightarrow> event list \<Rightarrow> (failure + response) \<times> event list" where
  "fetchWithTimeout w u timeout tr =
     (case w tr u of
        Responds ms r \<Rightarrow>
          if ms < timeout then (Inr r, tr @ [Fetch u]) else (Inl TimeoutFailure, tr @ [Fetch u])
      | Fails \<Rightarrow> (Inl NetworkFailure, tr @ [Fetch u])
      | Silent \<Rightarrow> (Inl TimeoutFailure, tr @ [Fetch u]))"

definition SAAVN_BASE_URL :: string where
  "SAAVN_BASE_URL = ''https://saavn.sumit.co''"

definition INVIDIOUS_INSTANCES :: "string list" where
  "INVIDIOUS_INSTANCES =
     [''invidious.darkness.services'', ''yt.omada.cafe'', ''invidious.reallyaweso.me'',
      ''invidious.f5.si'', ''inv-veltrix-2.zeabur.app'', ''inv-veltrix.zeabur.app'',
      ''inv-veltrix-3.zeabur.app'', ''inv.vern.cc'', ''invidious.materialio.us'',
      ''y.com.sb'']"

fun STREMIO_INSTANCES :: "version \<Rightarrow> string list" where
  "STREMIO_INSTANCES AudioJs =
     [''https://ubiquitous-rugelach-b30b3f.netlify.app'',
      ''https://super-duper-system.netlify.app'',
      ''https://ubiquitous-rugelach-b30b3f.netlify.app'']"
| "STREMIO_INSTANCES _ =
     [''https://ubiquitous-rugelach-b30b3f.netlify.app'',
      ''https://super-duper-system.netlify.app'']"

subsection \<open>The metadata search\<close>

definition hexDigit :: "nat \<Rightarrow> char" where
  "hexDigit n = (if n < 10 then char_of (48 + n) else char_of (55 + n))"

definition unreserved :: "char \<Rightarrow> bool" where
  "unreserved c =
     (let n = (of_char c :: nat) in
      (48 \<le> n \<and> n \<le> 57) \<or> (65 \<le> n \<and> n \<le> 90) \<or> (97 \<le> n \<and> n \<le> 122) \<or>
      c \<in> set ''-_.!~*'()'')"

definition encodeURIComponent :: "string \<Rightarrow> string" where
  "encodeURIComponent s =
     concat (map (\<lambda>c. if unreserved c then [c]
                        else [CHR ''%'', hexDigit ((of_char c :: nat) div 16),
                              hexDigit ((of_char c :: nat) mod 16)]) s)"

definition searchUrl :: "string \<Rightarrow> string option \<Rightarrow> string" where
  "searchUrl title author =
     (let query = (case author of
                     None \<Rightarrow> title
                   | Some a \<Rightarrow> if a \<noteq> [] then title @ '' '' @ a else title)
      in SAAVN_BASE_URL @ ''/api/search/songs?query='' @ encodeURIComponent query)"

text \<open>
  The check of the parsed body. \<^verbatim>\<open>part_000\<close> and \<^verbatim>\<open>part_001\<close> test \<^verbatim>\<open>data.data\<close> before
  reading \<^verbatim>\<open>data.data.results\<close>; \<^verbatim>\<open>audio.js\<close> does not, and throws a type error there.
\<close>

definition searchResults :: "version \<Rightarrow> json \<Rightarrow> failure + candidate list" where
  "searchResults v j =
     (case j of
        OtherJson _ \<Rightarrow> Inl NoResults
      | SearchJson d \<Rightarrow>
          if \<not> sb_success d then Inl NoResults
          else (case sb_data d of
                  None \<Rightarrow> if v = AudioJs then Inl TypeError else Inl NoResults
                | Some dd \<Rightarrow>
                    (case sd_results dd of
                       None \<Rightarrow> Inl NoResults
                     | Some rs \<Rightarrow> if length rs = 0 then Inl NoResults else Inr rs)))"

definition searchJioSaavn ::
  "version \<Rightarrow> world \<Rightarrow> string \<Rightarrow> string option \<Rightarrow> string option \<Rightarrow> event list \<Rightarrow>
   (failure + saavn_result) \<times> event list" where
  "searchJioSaavn v w title author duration tr =
     (case fetchWithTimeout w (searchUrl title author) 10000 tr of
        (Inl e, tr') \<Rightarrow> (Inl e, tr')
      | (Inr resp, tr') \<Rightarrow>
          if \<not> ok resp then (Inl (UpstreamStatusFailure (rs_status resp)), tr')
          else (case rs_body resp of
                  None \<Rightarrow> (Inl MalformedResponseFailure, tr')
                | Some j \<Rightarrow>
                    (case searchResults v j of
                       Inl e \<Rightarrow> (Inl e, tr')
                     | Inr rs \<Rightarrow>
                         (case selection v title author duration rs of
                            Inl e \<Rightarrow> (Inl e, tr')
                          | Inr bestMatch \<Rightarrow> (Inr (derivation v bestMatch), tr')))))"

subsection \<open>The two instance adapters\<close>

record instance_result =
  i_source :: string
  i_instance :: string
  i_data :: json

text \<open>
  The loop of \<^verbatim>\<open>fetchFromStremio\<close> and of \<^verbatim>\<open>fetchFromInvidious\<close>, which differ in the name
  of the source, in the list and in how the base URL is made from a list entry.
\<close>

fun tryInstances ::
  "world \<Rightarrow> string \<Rightarrow> (string \<Rightarrow> string) \<Rightarrow> string \<Rightarrow> string list \<Rightarrow> event list \<Rightarrow>
   (failure + instance_result) \<times> event list" where
  "tryInstances w src base videoId [] tr =
     (Inl (ExhaustedFailure src), tr)"
| "tryInstances w src base videoId (inst # rest) tr =
     (case fetchWithTimeout w (base inst @ ''/api/v1/videos/'' @ videoId) 8000 tr of
        (Inl e, tr') \<Rightarrow> tryInstances w src base videoId rest tr'
      | (Inr resp, tr') \<Rightarrow>
          if \<not> ok resp then tryInstances w src base videoId rest tr'
          else (case rs_body resp of
                  None \<Rightarrow> tryInstances w src base videoId rest tr'
                | Some d \<Rightarrow>
                    (Inr \<lparr> i_source = src, i_instance = base inst, i_data = d \<rparr>, tr')))"

definition fetchFromStremio ::
  "version \<Rightarrow> world \<Rightarrow> string \<Rightarrow> event list \<Rightarrow> (failure + instance_result) \<times> event list" where
  "fetchFromStremio v w videoId tr =
     tryInstances w ''stremio'' (\<lambda>inst. inst) videoId (STREMIO_INSTANCES v) tr"

definition fetchFromInvidious ::
  "world \<Rightarrow> string \<Rightarrow> event list \<Rightarrow> (failure + instance_result) \<times> event list" where
  "fetchFromInvidious w videoId tr =
     tryInstances w ''invidious'' (\<lambda>inst. ''https://'' @ inst) videoId INVIDIOUS_INSTANCES tr"

section \<open>The request handler\<close>

record request =
  q_method :: string
  q_id :: "string option"
  q_title :: "string option"
  q_author :: "string option"
  q_duration :: "string option"

datatype payload =
    NoBody
  | ErrorBody string
  | SaavnSuccess saavn_result
  | InstanceSuccess instance_result
  | NotFoundBody bool string string string string

record reply =
  status :: nat
  headers :: "(string \<times> string) list"
  body :: payload

definition corsHeaders :: "(string \<times> string) list" where
  "corsHeaders =
     [(''Access-Control-Allow-Origin'', ''*''),
      (''Access-Control-Allow-Methods'', ''GET, OPTIONS''),
      (''Access-Control-Allow-Headers'', ''Content-Type'')]"

definition respond :: "nat \<Rightarrow> payload \<Rightarrow> reply" where
  "respond st b = \<lparr> status = st, headers = corsHeaders, body = b \<rparr>"

text \<open>The body of the 404 answer: \<open>success\<close>, \<open>error\<close>, and the three entries of \<open>attempts\<close>.\<close>

definition allFailed :: "string option \<Rightarrow> reply" where
  "allFailed title =
     respond 404
       (NotFoundBody False ''Could not fetch audio from any source''
          (if truthy title then ''failed'' else ''skipped'') ''failed'' ''failed'')"

text \<open>Strategy 3 and the final answer.\<close>

definition tryInvidious ::
  "world \<Rightarrow> string \<Rightarrow> string option \<Rightarrow> event list \<Rightarrow> reply \<times> event list" where
  "tryInvidious w videoId title tr =
     (case fetchFromInvidious w videoId (tr @ [Trying Invidious]) of
        (Inr r, tr') \<Rightarrow> (respond 200 (InstanceSuccess r), tr')
      | (Inl e, tr') \<Rightarrow> (allFailed title, tr'))"

text \<open>Strategy 2, falling through to strategy 3.\<close>

definition tryStremio ::
  "version \<Rightarrow> world \<Rightarrow> string \<Rightarrow> string option \<Rightarrow> event list \<Rightarrow> reply \<times> event list" where
  "tryStremio v w videoId title tr =
     (case fetchFromStremio v w videoId (tr @ [Trying Stremio]) of
        (Inr r, tr') \<Rightarrow> (respond 200 (InstanceSuccess r), tr')
      | (Inl e, tr') \<Rightarrow> tryInvidious w videoId title tr')"

text \<open>Strategy 1, when a title is given, falling through to strategy 2.\<close>

definition tryJioSaavn ::
  "version \<Rightarrow> world \<Rightarrow> string \<Rightarrow> string option \<Rightarrow> string option \<Rightarrow> string option \<Rightarrow>
   reply \<times> event list" where
  "tryJioSaavn v w videoId title author duration =
     (case title of
        None \<Rightarrow> tryStremio v w videoId title []
      | Some t \<Rightarrow>
          if t = [] then tryStremio v w videoId title []
          else (case searchJioSaavn v w t author duration [Trying JioSaavn] of
                  (Inr r, tr') \<Rightarrow> (respond 200 (SaavnSuccess r), tr')
                | (Inl e, tr') \<Rightarrow> tryStremio v w videoId title tr'))"

text \<open>
  The handler. Every failure of a strategy is caught by the block around it, so the outer
  \<^verbatim>\<open>catch\<close> with status 500 is not reached from the code modelled here.
\<close>

definition handler :: "version \<Rightarrow> world \<Rightarrow> request \<Rightarrow> reply \<times> event list" where
  "handler v w req =
     (if q_method req = ''OPTIONS'' then (respond 200 NoBody, [])
      else if q_method req \<noteq> ''GET'' then (respond 405 (ErrorBody ''Method not allowed''), [])
      else (case q_id req of
              None \<Rightarrow> (respond 400 (ErrorBody ''Missing required parameter: id''), [])
            | Some videoId \<Rightarrow>
                if videoId = []
                then (respond 400 (ErrorBody ''Missing required parameter: id''), [])
                else tryJioSaavn v w videoId (q_title req) (q_author req) (q_duration req)))"

section \<open>What is observed of one request\<close>

fun strategiesTried :: "event list \<Rightarrow> strategy list" where
  "strategiesTried [] = []"
| "strategiesTried (Trying s # es) = s # strategiesTried es"
| "strategiesTried (Fetch u # es) = strategiesTried es"

fun fetched :: "event list \<Rightarrow> string list" where
  "fetched [] = []"
| "fetched (Trying s # es) = fetched es"
| "fetched (Fetch u # es) = u # fetched es"

text \<open>
  The outcome of each strategy at the point where the handler reaches it: the metadata
  search on the fresh trace when a title is given, the first instance adapter on the trace
  left by the search (or on the empty trace), the second one on the trace left by the first.
\<close>

definition saavnOutcome ::
  "version \<Rightarrow> world \<Rightarrow> string option \<Rightarrow> string option \<Rightarrow> string option \<Rightarrow>
   ((failure + saavn_result) \<times> event list) option" where
  "saavnOutcome v w title author duration =
     (case title of
        None \<Rightarrow> None
      | Some t \<Rightarrow> if t = [] then None
                  else Some (searchJioSaavn v w t author duration [Trying JioSaavn]))"

definition traceAfterSaavn ::
  "version \<Rightarrow> world \<Rightarrow> string option \<Rightarrow> string option \<Rightarrow> string option \<Rightarrow> event list" where
  "traceAfterSaavn v w title author duration =
     (case saavnOutcome v w title author duration of None \<Rightarrow> [] | Some (r, tr) \<Rightarrow> tr)"

definition saavnFailed ::
  "version \<Rightarrow> world \<Rightarrow> string option \<Rightarrow> string option \<Rightarrow> string option \<Rightarrow> bool" where
  "saavnFailed v w title author duration =
     (case saavnOutcome v w title author duration of
        None \<Rightarrow> True
      | Some (r, tr) \<Rightarrow> (case r of Inl e \<Rightarrow> True | Inr x \<Rightarrow> False))"

definition stremioOutcome ::
  "version \<Rightarrow> world \<Rightarrow> string \<Rightarrow> string option \<Rightarrow> string option \<Rightarrow> string option \<Rightarrow>
   (failure + instance_result) \<times> event list" where
  "stremioOutcome v w videoId title author duration =
     fetchFromStremio v w videoId (traceAfterSaavn v w title author duration @ [Trying Stremio])"

definition invidiousOutcome ::
  "version \<Rightarrow> world \<Rightarrow> string \<Rightarrow> string option \<Rightarrow> string option \<Rightarrow> string option \<Rightarrow>
   (failure + instance_result) \<times> event list" where
  "invidiousOutcome v w videoId title author duration =
     fetchFromInvidious w videoId
       (snd (stremioOutcome v w videoId title author duration) @ [Trying Invidious])"

text \<open>The order in which the strategies may be attempted for a request.\<close>

definition plan :: "string option \<Rightarrow> strategy list" where
  "plan title = (if truthy title then [JioSaavn] else []) @ [Stremio, Invidious]"

text \<open>
  What one instance endpoint yields when asked at a given point of the request: the parsed
  body of a 2xx answer that arrives within 8000 ms, and nothing on a transport error, a
  timeout, another status or a body that does not parse.
\<close>

definition instanceAnswers :: "world \<Rightarrow> string \<Rightarrow> event list \<Rightarrow> json option" where
  "instanceAnswers w u tr =
     (case w tr u of
        Responds ms r \<Rightarrow> if ms < 8000 \<and> 200 \<le> rs_status r \<and> rs_status r \<le> 299 then rs_body r else None
      | Fails \<Rightarrow> None
      | Silent \<Rightarrow> None)"

definition instanceUrl :: "(string \<Rightarrow> string) \<Rightarrow> string \<Rightarrow> string \<Rightarrow> string" where
  "instanceUrl base videoId inst = base inst @ ''/api/v1/videos/'' @ videoId"

section \<open>The composite score as the specification words it\<close>







text \<open>The artist names of a candidate, absent lists read as empty.\<close>

definition primaryNames :: "candidate \<Rightarrow> string list" where
  "primaryNames c = (case primaryOf c of None \<Rightarrow> [] | Some l \<Rightarrow> map aname l)"

definition featuredNames :: "candidate \<Rightarrow> string list" where
  "featuredNames c = (case featuredOf c of None \<Rightarrow> [] | Some l \<Rightarrow> map aname l)"

definition allNames :: "candidate \<Rightarrow> string list" where
  "allNames c = (case allOf c of None \<Rightarrow> [] | Some l \<Rightarrow> map aname l)"

section \<open>Concrete requests and candidates\<close>

definition mkCandidate ::
  "string \<Rightarrow> string list \<Rightarrow> string list \<Rightarrow> int option \<Rightarrow> candidate" where
  "mkCandidate n ps fs d =
     \<lparr> c_name = n,
       c_artists = Some \<lparr> primary = Some (map Artist ps), featured = Some (map Artist fs),
                          all_artists = None \<rparr>,
       c_duration = d,
       c_downloadUrl = Some [Variant ''12kbps'' ''low.mp4'', Variant ''320kbps'' ''high.mp4''],
       c_image = Some [Variant ''50x50'' ''small.jpg'', Variant ''500x500'' ''large.jpg''],
       c_url = ''https://example.org/song'' \<rparr>"

definition imagine :: candidate where
  "imagine = mkCandidate ''Imagine'' [''John Lennon''] [] (Some 181)"

definition deadWorld :: world where
  "deadWorld tr u = Fails"

definition getRequest ::
  "string option \<Rightarrow> string option \<Rightarrow> string option \<Rightarrow> string option \<Rightarrow> request" where
  "getRequest i t a d =
     \<lparr> q_method = ''GET'', q_id = i, q_title = t, q_author = a, q_duration = d \<rparr>"


definition liveTake :: candidate where
  "liveTake = mkCandidate ''Imagine (Live)'' [''John Lennon''] [''Yoko Ono''] (Some 200)"


definition firstStremio :: string where
  "firstStremio = ''https://ubiquitous-rugelach-b30b3f.netlify.app''"

definition secondStremio :: string where
  "secondStremio = ''https://super-duper-system.netlify.app''"

text \<open>A world in which only the first Stremio instance answers, with an empty object.\<close>

definition stremioWorld :: world where
  "stremioWorld tr u =
     (if u = firstStremio @ ''/api/v1/videos/abc''
      then Responds 120 \<lparr> rs_status = 200, rs_body = Some (OtherJson ''{}'') \<rparr>
      else Fails)"

definition stremioAnswer :: instance_result where
  "stremioAnswer =
     \<lparr> i_source = ''stremio'', i_instance = firstStremio, i_data = OtherJson ''{}'' \<rparr>"

section \<open>Properties of the composite scorer\<close>

subsection \<open>Comparisons against a number\<close>



lemma jlt_Num_iff: "jlt x (Num b) = (\<exists>s. x = Num s \<and> s < b)"
  by (cases x) auto

subsection \<open>The scan over the results\<close>








lemma selectBest_first:
  "\<not> truthy author \<or> \<not> truthy duration \<Longrightarrow>
   selectBest t author duration rs = firstResult rs"
  by (cases author; cases duration) (auto simp: selectBest_def)



subsection \<open>An author hint without a token\<close>

lemma lowerChar_sep_space: "isArtistSep c \<or> isSpace c \<Longrightarrow> lowerChar c = c"
  by (auto simp: isArtistSep_def isSpace_def lowerChar_def Let_def)

lemma splitOn_pieces:
  "\<forall>c\<in>set s. P c \<or> Q c \<Longrightarrow> \<forall>w\<in>set (splitOn P s). \<forall>c\<in>set w. Q c"
  by (induction s) (auto split: list.splits)

lemma trim_spaces:
  assumes "\<forall>c\<in>set w. isSpace c"
  shows "trim w = []"
proof -
  have e: "dropWhile isSpace w = []" using assms by simp
  show ?thesis unfolding trim_def e by simp
qed

lemma authorNames_no_token:
  assumes "\<forall>ch\<in>set a. isArtistSep ch \<or> isSpace ch"
  shows "authorNames a = []"
proof -
  have low: "toLowerCase a = a"
    unfolding toLowerCase_def using assms by (simp add: lowerChar_sep_space map_idI)
  have "\<forall>w\<in>set (splitOn isArtistSep a). trim w = []"
    using splitOn_pieces[OF assms] trim_spaces by blast
  then show ?thesis
    by (simp add: authorNames_def low filter_empty_conv)
qed

lemma countMatched_bound: "countMatched names arts k \<le> k + length names"
proof (induction names arbitrary: k)
  case Nil
  then show ?case by simp
next
  case (Cons n ns)
  from Cons.IH[of "Suc k"] Cons.IH[of k] show ?case by auto
qed

lemma artistMatchPercent_no_token: "artistMatchPercent [] c = NaN"
  by (simp add: artistMatchPercent_def)

lemma score_no_token: "score t [] g c = NaN"
  by (simp add: score_def artistMatchPercent_no_token)

lemma scan_no_token: "scanResults t [] g rs (bm, bs) = (bm, bs)"
  by (induction rs) (simp_all add: score_no_token)

lemma searchJioSaavn_selection_fails:
  "(\<And>rs. selection v t author duration rs = Inl (f rs)) \<Longrightarrow>
   fst (searchJioSaavn v w t author duration tr) \<noteq> Inr r"
  by (auto simp: searchJioSaavn_def split: prod.splits sum.splits option.splits)

text \<open>
  Claim C10. When author and duration hints are both non-empty and the author hint
  consists of commas, ampersands and white space only, it has no token: the artist match
  ratio of every candidate is \<open>0 / 0 = NaN\<close>, every score is \<open>NaN\<close> and so never greater
  than the best score so far, the scan selects nothing, the scorer answers
  \<open>NoConfidentMatch\<close>, and the metadata search of \<^verbatim>\<open>part_000\<close> never succeeds.
\<close>

theorem C10_no_author_token:
  assumes "a \<noteq> []" and "d \<noteq> []"
    and "\<forall>ch\<in>set a. ch = CHR '','' \<or> ch = CHR ''&'' \<or> isSpace ch"
  shows "authorNames a = [] \<and>
    (\<forall>c. artistMatchPercent (authorNames a) c = NaN \<and>
          score title (authorNames a) (parseInt d) c = NaN \<and>
          \<not> jgt (score title (authorNames a) (parseInt d) c) (Num (- 1))) \<and>
    scanResults title (authorNames a) (parseInt d) results (None, Num (- 1)) = (None, Num (- 1)) \<and>
    selectBest title (Some a) (Some d) results = Inl NoConfidentMatch \<and>
    (\<forall>w tr r. fst (searchJioSaavn Part000 w title (Some a) (Some d) tr) \<noteq> Inr r)"
proof -
  have n: "authorNames a = []"
    using assms(3) by (intro authorNames_no_token) (auto simp: isArtistSep_def)
  have sel: "\<And>rs. selectBest title (Some a) (Some d) rs = Inl NoConfidentMatch"
    using assms(1,2) by (simp add: selectBest_def fullScoring_def n scan_no_token)
  have "\<And>w tr r. fst (searchJioSaavn Part000 w title (Some a) (Some d) tr) \<noteq> Inr r"
    by (rule searchJioSaavn_selection_fails[where f = "\<lambda>_. NoConfidentMatch"]) (simp add: sel)
  with n sel show ?thesis
    by (simp add: artistMatchPercent_no_token score_no_token scan_no_token)
qed

theorem C10_witness:
  "'', & '' \<noteq> [] \<and> ''181'' \<noteq> [] \<and> authorNames '', & '' = [] \<and>
   jlt (durationDiff (parseInt ''181'') imagine) (Num 10) \<and>
   selectBest ''Imagine'' (Some '', & '') (Some ''181'') [imagine] = Inl NoConfidentMatch"
proof -
  have h1: "'', & '' \<noteq> []" and h2: "''181'' \<noteq> []" by simp_all
  have h3: "\<forall>ch\<in>set '', & ''. ch = CHR '','' \<or> ch = CHR ''&'' \<or> isSpace ch"
    by code_simp
  have e: "jlt (durationDiff (parseInt ''181'') imagine) (Num 10)" by code_simp
  from C10_no_author_token[OF h1 h2 h3, of "''Imagine''" "[imagine]"] e
  show ?thesis by simp
qed

subsection \<open>The selected candidate\<close>




section \<open>The derived result\<close>

lemma lastUrl_last: "vs \<noteq> [] \<Longrightarrow> lastUrl (Some vs) = Some (vurl (last vs))"
  by (simp add: lastUrl_def last_conv_nth)

lemma lastUrl_none: "lastUrl None = None" "lastUrl (Some []) = None"
  by (simp_all add: lastUrl_def)

lemma artistString_names:
  "artistString c =
     (if primaryNames c = [] \<and> featuredNames c = [] then ''Unknown''
      else join '', '' (primaryNames c @ featuredNames c))"
  by (auto simp: artistString_def primaryNames_def featuredNames_def mapOrEmpty_def Let_def
      split: option.splits)

lemma joinedNames_names:
  "orElse (joinedNames xs) b =
     (if join '', '' (case xs of None \<Rightarrow> [] | Some l \<Rightarrow> map aname l) = [] then b
      else join '', '' (case xs of None \<Rightarrow> [] | Some l \<Rightarrow> map aname l))"
  by (cases xs) (simp_all add: joinedNames_def)

lemma artistString_audio_names:
  "artistString_audio c =
     (if join '', '' (primaryNames c) \<noteq> [] then join '', '' (primaryNames c)
      else if join '', '' (allNames c) \<noteq> [] then join '', '' (allNames c)
      else ''Unknown'')"
  by (simp add: artistString_audio_def joinedNames_names primaryNames_def allNames_def)

text \<open>
  Claim C9, amended. In all three versions the download URL is the URL of the last entry
  of a non-empty \<open>downloadUrl\<close> list and the thumbnail the URL of the last entry of a
  non-empty \<open>image\<close> list. In \<^verbatim>\<open>part_000\<close> and \<^verbatim>\<open>part_001\<close> the artist string is the
  primary names followed by the featured names, joined by a comma and a space, or
  \<open>Unknown\<close> when both lists are empty. In \<^verbatim>\<open>api/audio.js\<close> the artist string is the joined
  primary names when that string is not empty, else the joined names of the list \<open>all\<close>
  when that string is not empty, else \<open>Unknown\<close>; the featured names are not used.
\<close>

theorem C9_derived_result:
  "(c_downloadUrl c = Some vs \<and> vs \<noteq> [] \<longrightarrow>
      r_downloadUrl (derivation v c) = Some (vurl (last vs))) \<and>
   (c_image c = Some ims \<and> ims \<noteq> [] \<longrightarrow>
      r_thumbnail (derivation v c) = Some (vurl (last ims))) \<and>
   (v \<noteq> AudioJs \<longrightarrow>
      r_artist (derivation v c) =
        (if primaryNames c = [] \<and> featuredNames c = [] then ''Unknown''
         else join '', '' (primaryNames c @ featuredNames c))) \<and>
   (v = AudioJs \<longrightarrow>
      r_artist (derivation v c) =
        (if join '', '' (primaryNames c) \<noteq> [] then join '', '' (primaryNames c)
         else if join '', '' (allNames c) \<noteq> [] then join '', '' (allNames c)
         else ''Unknown''))"
  by (cases v)
     (simp_all add: deriveResult_def deriveResult_audio_def lastUrl_last artistString_names
        artistString_audio_names)

theorem C9_witness:
  "c_downloadUrl liveTake = Some [Variant ''12kbps'' ''low.mp4'', Variant ''320kbps'' ''high.mp4''] \<and>
   [Variant ''12kbps'' ''low.mp4'', Variant ''320kbps'' ''high.mp4''] \<noteq> [] \<and>
   c_image liveTake = Some [Variant ''50x50'' ''small.jpg'', Variant ''500x500'' ''large.jpg''] \<and>
   [Variant ''50x50'' ''small.jpg'', Variant ''500x500'' ''large.jpg''] \<noteq> [] \<and>
   Part000 \<noteq> AudioJs \<and>
   r_downloadUrl (derivation Part000 liveTake) = Some ''high.mp4'' \<and>
   r_thumbnail (derivation Part000 liveTake) = Some ''large.jpg'' \<and>
   r_artist (derivation Part000 liveTake) = ''John Lennon, Yoko Ono'' \<and>
   r_artist (derivation AudioJs liveTake) = ''John Lennon''"
proof -
  have d: "c_downloadUrl liveTake =
      Some [Variant ''12kbps'' ''low.mp4'', Variant ''320kbps'' ''high.mp4'']"
    and i: "c_image liveTake =
      Some [Variant ''50x50'' ''small.jpg'', Variant ''500x500'' ''large.jpg'']"
    by (simp_all add: liveTake_def mkCandidate_def)
  have n: "primaryNames liveTake = [''John Lennon'']" "featuredNames liveTake = [''Yoko Ono'']"
    by (simp_all add: liveTake_def mkCandidate_def primaryNames_def featuredNames_def
        primaryOf_def featuredOf_def)
  from C9_derived_result[of liveTake
      "[Variant ''12kbps'' ''low.mp4'', Variant ''320kbps'' ''high.mp4'']" Part000
      "[Variant ''50x50'' ''small.jpg'', Variant ''500x500'' ''large.jpg'']"]
    C9_derived_result[of liveTake
      "[Variant ''12kbps'' ''low.mp4'', Variant ''320kbps'' ''high.mp4'']" AudioJs
      "[Variant ''50x50'' ''small.jpg'', Variant ''500x500'' ''large.jpg'']"]
    d i n
  show ?thesis by simp
qed

text \<open>
  Claim C9 as stated fails in \<^verbatim>\<open>api/audio.js\<close>: for a candidate with one primary and one
  featured artist its artist string is not the concatenation of both lists.
\<close>

theorem C9_counterexample:
  "r_artist (derivation AudioJs liveTake) \<noteq>
     join '', '' (primaryNames liveTake @ featuredNames liveTake)"
  by code_simp

section \<open>Selection without hints\<close>

lemma selectBest_part001_first:
  "\<not> truthy author \<or> \<not> truthy duration \<Longrightarrow>
   selectBest_part001 t author duration (r # rest) = Inr r"
  by (cases author; cases duration) (auto simp: selectBest_part001_def)

lemma selectBest_audio_first:
  "\<not> truthy duration \<or> rest = [] \<Longrightarrow> selectBest_audio t author duration (r # rest) = Inr r"
  by (cases duration) (auto simp: selectBest_audio_def)

text \<open>
  Claim C2, amended. On a non-empty list, \<^verbatim>\<open>part_000\<close> and \<^verbatim>\<open>part_001\<close> return the first
  candidate whenever the author hint or the duration hint is absent or empty.
  \<^verbatim>\<open>api/audio.js\<close> does not read the author hint for the selection: it returns the first
  candidate whenever the duration hint is absent or empty, or the list has one element.
\<close>

theorem C2_first_candidate:
  "(\<not> truthy author \<or> \<not> truthy duration \<longrightarrow>
      selection Part000 title author duration (r # rest) = Inr r \<and>
      selection Part001 title author duration (r # rest) = Inr r) \<and>
   (\<not> truthy duration \<or> rest = [] \<longrightarrow>
      selection AudioJs title author duration (r # rest) = Inr r)"
  by (simp add: selectBest_first firstResult_def selectBest_part001_first selectBest_audio_first)

theorem C2_witness:
  "\<not> truthy None \<and> \<not> truthy (Some '''') \<and>
   selection Part000 ''Imagine'' None (Some ''200'') [imagine, liveTake] = Inr imagine \<and>
   selection Part001 ''Imagine'' None (Some ''200'') [imagine, liveTake] = Inr imagine \<and>
   selection AudioJs ''Imagine'' (Some ''John Lennon'') (Some '''') [imagine, liveTake] = Inr imagine"
  using C2_first_candidate[of None "Some ''200''" "''Imagine''" imagine "[liveTake]"]
    C2_first_candidate[of "Some ''John Lennon''" "Some ''''" "''Imagine''" imagine "[liveTake]"]
  by simp

text \<open>
  Claim C2 as stated fails in \<^verbatim>\<open>api/audio.js\<close>: without an author hint, with the duration
  hint 200 and two candidates of durations 181 and 200, the second one is selected.
\<close>

theorem C2_counterexample:
  "\<not> truthy None \<and> [imagine, liveTake] \<noteq> [] \<and>
   selection AudioJs ''Imagine'' None (Some ''200'') [imagine, liveTake] \<noteq> Inr (hd [imagine, liveTake])"
  by code_simp

section \<open>The composite score\<close>

subsection \<open>Substrings and lower case\<close>











subsection \<open>The three parts of the score\<close>









section \<open>The adapters and the handler\<close>

subsection \<open>Traces\<close>

lemma strategiesTried_append:
  "strategiesTried (xs @ ys) = strategiesTried xs @ strategiesTried ys"
  by (induction xs rule: strategiesTried.induct) simp_all

lemma strategiesTried_fetches: "strategiesTried (map (\<lambda>i. Fetch (f i)) us) = []"
  by (induction us) simp_all

lemma fetched_append: "fetched (xs @ ys) = fetched xs @ fetched ys"
  by (induction xs rule: fetched.induct) simp_all

lemma fetched_fetches: "fetched (map (\<lambda>i. Fetch (f i)) us) = map f us"
  by (induction us) simp_all

lemma fetchWithTimeout_trace: "snd (fetchWithTimeout w u t tr) = tr @ [Fetch u]"
  by (simp add: fetchWithTimeout_def split: upstream.split)

lemma searchJioSaavn_trace:
  "snd (searchJioSaavn v w t a d tr) = tr @ [Fetch (searchUrl t a)]"
  using fetchWithTimeout_trace[of w "searchUrl t a" 10000 tr]
  by (auto simp: searchJioSaavn_def split: prod.splits sum.splits option.splits)

subsection \<open>The loop over the instances\<close>

lemma instance_attempt:
  "fetchWithTimeout w u 8000 tr = (res, tr') \<Longrightarrow>
   tr' = tr @ [Fetch u] \<and>
   instanceAnswers w u tr =
     (case res of Inl e \<Rightarrow> None | Inr resp \<Rightarrow> if ok resp then rs_body resp else None)"
  by (auto simp: fetchWithTimeout_def instanceAnswers_def ok_def split: upstream.splits if_splits)

lemma tryInstances_step:
  "tryInstances w src base vid (inst # rest) tr =
     (case instanceAnswers w (instanceUrl base vid inst) tr of
        None \<Rightarrow> tryInstances w src base vid rest (tr @ [Fetch (instanceUrl base vid inst)])
      | Some d \<Rightarrow> (Inr \<lparr> i_source = src, i_instance = base inst, i_data = d \<rparr>,
                   tr @ [Fetch (instanceUrl base vid inst)]))"
proof -
  obtain res tr' where f: "fetchWithTimeout w (instanceUrl base vid inst) 8000 tr = (res, tr')"
    by (cases "fetchWithTimeout w (instanceUrl base vid inst) 8000 tr") auto
  from instance_attempt[OF f] f show ?thesis
    by (auto simp: instanceUrl_def split: sum.splits option.splits)
qed


text \<open>
  The loop asks the entries of its list in order, each at most once. It fails only with
  the exhaustion error, after asking every entry without a usable answer; it succeeds at
  the first entry that gives a usable answer, asks no entry after it, and passes the
  parsed body through.
\<close>

lemma tryInstances_spec:
  "case tryInstances w src base vid insts tr of
     (Inl e, tr') \<Rightarrow>
        e = ExhaustedFailure src \<and>
        tr' = tr @ map (\<lambda>i. Fetch (instanceUrl base vid i)) insts \<and>
        (\<forall>j<length insts.
           instanceAnswers w (instanceUrl base vid (insts ! j))
             (tr @ map (\<lambda>i. Fetch (instanceUrl base vid i)) (take j insts)) = None)
   | (Inr r, tr') \<Rightarrow>
        (\<exists>j<length insts.
           tr' = tr @ map (\<lambda>i. Fetch (instanceUrl base vid i)) (take (Suc j) insts) \<and>
           instanceAnswers w (instanceUrl base vid (insts ! j))
             (tr @ map (\<lambda>i. Fetch (instanceUrl base vid i)) (take j insts)) = Some (i_data r) \<and>
           i_instance r = base (insts ! j) \<and> i_source r = src \<and>
           (\<forall>j'<j.
              instanceAnswers w (instanceUrl base vid (insts ! j'))
                (tr @ map (\<lambda>i. Fetch (instanceUrl base vid i)) (take j' insts)) = None))"
proof (induction insts arbitrary: tr)
  case Nil
  then show ?case by simp
next
  case (Cons inst rest)
  show ?case
  proof (cases "instanceAnswers w (instanceUrl base vid inst) tr")
    case (Some d)
    then have "tryInstances w src base vid (inst # rest) tr =
        (Inr \<lparr> i_source = src, i_instance = base inst, i_data = d \<rparr>,
         tr @ [Fetch (instanceUrl base vid inst)])"
      by (simp add: tryInstances_step del: tryInstances.simps)
    with Some show ?thesis
      by (auto intro!: exI[of _ 0])
  next
    case None
    have step: "tryInstances w src base vid (inst # rest) tr =
        tryInstances w src base vid rest (tr @ [Fetch (instanceUrl base vid inst)])"
      using None by (simp add: tryInstances_step del: tryInstances.simps)
    from Cons.IH[of "tr @ [Fetch (instanceUrl base vid inst)]"] None show ?thesis
      unfolding step
      by (auto simp: All_less_Suc2 Ex_less_Suc2 split: prod.splits sum.splits)
  qed
qed

lemma tryInstances_tried:
  "strategiesTried (snd (tryInstances w src base vid insts tr)) = strategiesTried tr"
  using tryInstances_spec[where w = w and src = src and base = base and vid = vid
      and insts = insts and tr = tr]
  by (auto simp: strategiesTried_append strategiesTried_fetches split: prod.splits sum.splits)

lemma searchJioSaavn_tried:
  "strategiesTried (snd (searchJioSaavn v w t a d tr)) = strategiesTried tr"
  by (simp add: searchJioSaavn_trace strategiesTried_append)


lemma searchJioSaavn_tried_pair:
  "searchJioSaavn v w t a d tr = (x, tr') \<Longrightarrow> strategiesTried tr' = strategiesTried tr"
  using searchJioSaavn_tried[of v w t a d tr] by simp

subsection \<open>The steps of the handler\<close>

lemma handler_get:
  "q_method req = ''GET'' \<Longrightarrow> q_id req = Some i \<Longrightarrow> i \<noteq> [] \<Longrightarrow>
   handler v w req = tryJioSaavn v w i (q_title req) (q_author req) (q_duration req)"
  by (simp add: handler_def)

lemma traceAfterSaavn_tried:
  "strategiesTried (traceAfterSaavn v w t a d) = (if truthy t then [JioSaavn] else [])"
  by (cases t)
     (auto simp: traceAfterSaavn_def saavnOutcome_def split: prod.splits
        dest: searchJioSaavn_tried_pair)

lemma stremioOutcome_tried:
  "strategiesTried (snd (stremioOutcome v w i t a d)) =
     (if truthy t then [JioSaavn] else []) @ [Stremio]"
  by (simp add: stremioOutcome_def fetchFromStremio_def tryInstances_tried
      strategiesTried_append traceAfterSaavn_tried)

lemma invidiousOutcome_tried:
  "strategiesTried (snd (invidiousOutcome v w i t a d)) = plan t"
  by (simp add: invidiousOutcome_def fetchFromInvidious_def tryInstances_tried
      strategiesTried_append stremioOutcome_tried plan_def)

lemma tryJioSaavn_success:
  "saavnOutcome v w t a d = Some (Inr r, tr) \<Longrightarrow>
   tryJioSaavn v w i t a d = (respond 200 (SaavnSuccess r), tr)"
  by (cases t) (auto simp: saavnOutcome_def tryJioSaavn_def split: if_splits)

lemma tryJioSaavn_failed:
  "saavnFailed v w t a d \<Longrightarrow>
   tryJioSaavn v w i t a d = tryStremio v w i t (traceAfterSaavn v w t a d)"
  by (cases t)
     (auto simp: saavnFailed_def saavnOutcome_def traceAfterSaavn_def tryJioSaavn_def
        split: if_splits prod.splits sum.splits)

lemma tryStremio_success:
  "stremioOutcome v w i t a d = (Inr r, tr) \<Longrightarrow>
   tryStremio v w i t (traceAfterSaavn v w t a d) = (respond 200 (InstanceSuccess r), tr)"
  by (simp add: stremioOutcome_def tryStremio_def)

lemma tryStremio_failed:
  "isl (fst (stremioOutcome v w i t a d)) \<Longrightarrow>
   tryStremio v w i t (traceAfterSaavn v w t a d) =
     tryInvidious w i t (snd (stremioOutcome v w i t a d))"
  by (auto simp: stremioOutcome_def tryStremio_def isl_def split: prod.splits sum.splits)

lemma tryInvidious_success:
  "invidiousOutcome v w i t a d = (Inr r, tr) \<Longrightarrow>
   tryInvidious w i t (snd (stremioOutcome v w i t a d)) = (respond 200 (InstanceSuccess r), tr)"
  by (simp add: invidiousOutcome_def tryInvidious_def)

lemma tryInvidious_failed:
  "isl (fst (invidiousOutcome v w i t a d)) \<Longrightarrow>
   tryInvidious w i t (snd (stremioOutcome v w i t a d)) =
     (allFailed t, snd (invidiousOutcome v w i t a d))"
  by (auto simp: invidiousOutcome_def tryInvidious_def isl_def split: prod.splits sum.splits)

lemma saavn_success_or_failed:
  "saavnFailed v w t a d \<or> (\<exists>r tr. saavnOutcome v w t a d = Some (Inr r, tr))"
  by (auto simp: saavnFailed_def split: option.splits prod.splits sum.splits)

lemma saavn_success_title:
  "saavnOutcome v w t a d = Some (x, tr) \<Longrightarrow> truthy t \<and> strategiesTried tr = [JioSaavn]"
  by (cases t) (auto simp: saavnOutcome_def split: if_splits dest: searchJioSaavn_tried_pair)

subsection \<open>The order of the strategies\<close>

lemma not_isl_pair: "\<not> isl (fst p) \<Longrightarrow> \<exists>r tr. p = (Inr r, tr)"
  by (cases p; cases "fst p") auto

lemma plan_distinct: "distinct (plan t)"
  by (simp add: plan_def)

lemma handler_tried:
  assumes "q_method req = ''GET''" and "q_id req = Some i" and "i \<noteq> []"
  shows "strategiesTried (snd (handler v w req)) =
     (if \<not> saavnFailed v w (q_title req) (q_author req) (q_duration req) then [JioSaavn]
      else if \<not> isl (fst (stremioOutcome v w i (q_title req) (q_author req) (q_duration req)))
        then (if truthy (q_title req) then [JioSaavn] else []) @ [Stremio]
      else plan (q_title req))"
proof -
  let ?t = "q_title req" and ?a = "q_author req" and ?d = "q_duration req"
  have h: "handler v w req = tryJioSaavn v w i ?t ?a ?d"
    using assms by (rule handler_get)
  show ?thesis
  proof (cases "saavnFailed v w ?t ?a ?d")
    case False
    then obtain r tr where o: "saavnOutcome v w ?t ?a ?d = Some (Inr r, tr)"
      using saavn_success_or_failed by blast
    from saavn_success_title[OF o] tryJioSaavn_success[OF o, of i] False h
    show ?thesis by simp
  next
    case True
    note sf = this
    show ?thesis
    proof (cases "isl (fst (stremioOutcome v w i ?t ?a ?d))")
      case False
      then obtain r tr where o: "stremioOutcome v w i ?t ?a ?d = (Inr r, tr)"
        using not_isl_pair by blast
      have "strategiesTried tr = (if truthy ?t then [JioSaavn] else []) @ [Stremio]"
        using stremioOutcome_tried[of v w i ?t ?a ?d] o by simp
      with tryJioSaavn_failed[OF sf, of i] tryStremio_success[OF o] h sf False
      show ?thesis by simp
    next
      case True
      note stf = this
      have hs: "handler v w req = tryInvidious w i ?t (snd (stremioOutcome v w i ?t ?a ?d))"
        using h tryJioSaavn_failed[OF sf, of i] tryStremio_failed[OF stf] by simp
      show ?thesis
      proof (cases "isl (fst (invidiousOutcome v w i ?t ?a ?d))")
        case True
        from tryInvidious_failed[OF True] hs sf stf invidiousOutcome_tried[of v w i ?t ?a ?d]
        show ?thesis by simp
      next
        case False
        then obtain r tr where o: "invidiousOutcome v w i ?t ?a ?d = (Inr r, tr)"
          using not_isl_pair by blast
        have "strategiesTried tr = plan ?t"
          using invidiousOutcome_tried[of v w i ?t ?a ?d] o by simp
        with tryInvidious_success[OF o] hs sf stf show ?thesis by simp
      qed
    qed
  qed
qed

lemma saavn_attempted_title:
  "\<not> saavnFailed v w t a d \<Longrightarrow> truthy t"
  using saavn_success_or_failed[of v w t a d] saavn_success_title by blast

text \<open>
  Claim C5. For a GET request with a non-empty \<open>id\<close>, in every version: the strategies
  attempted are a non-empty initial segment of the plan, which is the metadata search
  (only when a non-empty title is given), then Stremio, then Invidious; no strategy is
  attempted twice. When the metadata search succeeds the request ends with status 200
  and its result, and nothing else has been attempted. When it failed or was skipped and
  Stremio succeeds, the request ends with status 200 and that result, and Invidious has
  not been attempted. When Stremio fails too, Invidious is attempted, and its success
  ends the request with status 200 and its result.
\<close>

theorem C5_strategy_order:
  assumes "q_method req = ''GET''" and "q_id req = Some i" and "i \<noteq> []"
  shows
   "(\<exists>k. 0 < k \<and> k \<le> length (plan (q_title req)) \<and>
         strategiesTried (snd (handler v w req)) = take k (plan (q_title req))) \<and>
    plan (q_title req) = (if truthy (q_title req) then [JioSaavn] else []) @ [Stremio, Invidious] \<and>
    distinct (strategiesTried (snd (handler v w req))) \<and>
    (\<forall>r tr. saavnOutcome v w (q_title req) (q_author req) (q_duration req) = Some (Inr r, tr) \<longrightarrow>
        handler v w req = (respond 200 (SaavnSuccess r), tr) \<and>
        strategiesTried (snd (handler v w req)) = [JioSaavn]) \<and>
    (saavnFailed v w (q_title req) (q_author req) (q_duration req) \<longrightarrow>
       (\<forall>r tr. stremioOutcome v w i (q_title req) (q_author req) (q_duration req) = (Inr r, tr) \<longrightarrow>
          handler v w req = (respond 200 (InstanceSuccess r), tr) \<and>
          strategiesTried (snd (handler v w req)) =
            (if truthy (q_title req) then [JioSaavn] else []) @ [Stremio])) \<and>
    (saavnFailed v w (q_title req) (q_author req) (q_duration req) \<and>
     isl (fst (stremioOutcome v w i (q_title req) (q_author req) (q_duration req))) \<longrightarrow>
       strategiesTried (snd (handler v w req)) = plan (q_title req) \<and>
       (\<forall>r tr. invidiousOutcome v w i (q_title req) (q_author req) (q_duration req) = (Inr r, tr) \<longrightarrow>
          handler v w req = (respond 200 (InstanceSuccess r), tr)))"
proof -
  let ?t = "q_title req" and ?a = "q_author req" and ?d = "q_duration req"
  let ?tried = "strategiesTried (snd (handler v w req))"
  have h: "handler v w req = tryJioSaavn v w i ?t ?a ?d"
    using assms by (rule handler_get)
  have tried: "?tried =
     (if \<not> saavnFailed v w ?t ?a ?d then [JioSaavn]
      else if \<not> isl (fst (stremioOutcome v w i ?t ?a ?d))
        then (if truthy ?t then [JioSaavn] else []) @ [Stremio]
      else plan ?t)"
    using assms by (rule handler_tried)
  have p1: "\<exists>k. 0 < k \<and> k \<le> length (plan ?t) \<and> ?tried = take k (plan ?t)"
  proof (cases "saavnFailed v w ?t ?a ?d")
    case False
    then have "truthy ?t" by (rule saavn_attempted_title)
    with False tried have "0 < (1::nat) \<and> 1 \<le> length (plan ?t) \<and> ?tried = take 1 (plan ?t)"
      by (simp add: plan_def)
    then show ?thesis by blast
  next
    case True
    show ?thesis
    proof (cases "isl (fst (stremioOutcome v w i ?t ?a ?d))")
      case False
      with True tried
      have "0 < length (plan ?t) - 1 \<and> length (plan ?t) - 1 \<le> length (plan ?t) \<and>
            ?tried = take (length (plan ?t) - 1) (plan ?t)"
        by (simp add: plan_def)
      then show ?thesis by blast
    next
      case stf: True
      with True tried
      have "0 < length (plan ?t) \<and> length (plan ?t) \<le> length (plan ?t) \<and>
            ?tried = take (length (plan ?t)) (plan ?t)"
        by (simp add: plan_def)
      then show ?thesis by blast
    qed
  qed
  have p2: "plan ?t = (if truthy ?t then [JioSaavn] else []) @ [Stremio, Invidious]"
    by (simp add: plan_def)
  have p3: "distinct ?tried"
    using p1 plan_distinct[of ?t] by (auto simp: distinct_take)
  have p4: "\<forall>r tr. saavnOutcome v w ?t ?a ?d = Some (Inr r, tr) \<longrightarrow>
        handler v w req = (respond 200 (SaavnSuccess r), tr) \<and> ?tried = [JioSaavn]"
  proof (intro allI impI)
    fix r tr assume o: "saavnOutcome v w ?t ?a ?d = Some (Inr r, tr)"
    from tryJioSaavn_success[OF o, of i] h saavn_success_title[OF o]
    show "handler v w req = (respond 200 (SaavnSuccess r), tr) \<and> ?tried = [JioSaavn]"
      by simp
  qed
  have p5: "saavnFailed v w ?t ?a ?d \<longrightarrow>
       (\<forall>r tr. stremioOutcome v w i ?t ?a ?d = (Inr r, tr) \<longrightarrow>
          handler v w req = (respond 200 (InstanceSuccess r), tr) \<and>
          ?tried = (if truthy ?t then [JioSaavn] else []) @ [Stremio])"
  proof (intro allI impI)
    fix r tr
    assume sf: "saavnFailed v w ?t ?a ?d" and o: "stremioOutcome v w i ?t ?a ?d = (Inr r, tr)"
    from o have "\<not> isl (fst (stremioOutcome v w i ?t ?a ?d))" by simp
    with tryJioSaavn_failed[OF sf, of i] tryStremio_success[OF o] h sf tried
    show "handler v w req = (respond 200 (InstanceSuccess r), tr) \<and>
          ?tried = (if truthy ?t then [JioSaavn] else []) @ [Stremio]"
      by simp
  qed
  have p6: "saavnFailed v w ?t ?a ?d \<and> isl (fst (stremioOutcome v w i ?t ?a ?d)) \<longrightarrow>
       ?tried = plan ?t \<and>
       (\<forall>r tr. invidiousOutcome v w i ?t ?a ?d = (Inr r, tr) \<longrightarrow>
          handler v w req = (respond 200 (InstanceSuccess r), tr))"
  proof (intro impI conjI allI)
    assume c: "saavnFailed v w ?t ?a ?d \<and> isl (fst (stremioOutcome v w i ?t ?a ?d))"
    then show "?tried = plan ?t" using tried by simp
    fix r tr assume o: "invidiousOutcome v w i ?t ?a ?d = (Inr r, tr)"
    from c have sf: "saavnFailed v w ?t ?a ?d"
      and stf: "isl (fst (stremioOutcome v w i ?t ?a ?d))" by simp_all
    from tryJioSaavn_failed[OF sf, of i] tryStremio_failed[OF stf] tryInvidious_success[OF o] h
    show "handler v w req = (respond 200 (InstanceSuccess r), tr)" by simp
  qed
  from p1 p2 p3 p4 p5 p6 show ?thesis by blast
qed

text \<open>
  Claim C7. For a GET request with a non-empty \<open>id\<close>, when the metadata search failed or
  was skipped and both instance adapters fail, the answer has status 404 and a body with
  \<open>success: false\<close>, the error message, and the attempts \<open>failed\<close> (title given) or
  \<open>skipped\<close> (no title) for the metadata search and \<open>failed\<close> for both adapters.
\<close>

theorem C7_all_failed:
  assumes "q_method req = ''GET''" and "q_id req = Some i" and "i \<noteq> []"
    and "saavnFailed v w (q_title req) (q_author req) (q_duration req)"
    and "isl (fst (stremioOutcome v w i (q_title req) (q_author req) (q_duration req)))"
    and "isl (fst (invidiousOutcome v w i (q_title req) (q_author req) (q_duration req)))"
  shows "fst (handler v w req) =
           \<lparr> status = 404, headers = corsHeaders,
             body = NotFoundBody False ''Could not fetch audio from any source''
                      (if truthy (q_title req) then ''failed'' else ''skipped'')
                      ''failed'' ''failed'' \<rparr> \<and>
         strategiesTried (snd (handler v w req)) = plan (q_title req)"
proof -
  let ?t = "q_title req" and ?a = "q_author req" and ?d = "q_duration req"
  have "handler v w req = (allFailed ?t, snd (invidiousOutcome v w i ?t ?a ?d))"
    using handler_get[OF assms(1,2,3)] tryJioSaavn_failed[OF assms(4), of i]
      tryStremio_failed[OF assms(5)] tryInvidious_failed[OF assms(6)]
    by simp
  then show ?thesis
    by (simp add: allFailed_def respond_def invidiousOutcome_tried)
qed

text \<open>
  Claim C8. A GET request whose \<open>id\<close> is absent or empty is answered with status 400 and
  the message that the parameter is missing, whatever the other parameters and the
  world are; no strategy is attempted and no URL is fetched.
\<close>

theorem C8_missing_id:
  assumes "q_method req = ''GET''" and "\<not> truthy (q_id req)"
  shows "handler v w req = (respond 400 (ErrorBody ''Missing required parameter: id''), []) \<and>
         status (fst (handler v w req)) = 400 \<and>
         fetched (snd (handler v w req)) = [] \<and>
         strategiesTried (snd (handler v w req)) = []"
  using assms by (cases "q_id req") (auto simp: handler_def respond_def)


theorem C5_witness:
  "q_method (getRequest (Some ''abc'') (Some ''Imagine'') None None) = ''GET'' \<and>
   q_id (getRequest (Some ''abc'') (Some ''Imagine'') None None) = Some ''abc'' \<and>
   ''abc'' \<noteq> [] \<and>
   saavnFailed AudioJs stremioWorld (Some ''Imagine'') None None \<and>
   stremioOutcome AudioJs stremioWorld ''abc'' (Some ''Imagine'') None None =
     (Inr stremioAnswer,
      [Trying JioSaavn, Fetch ''https://saavn.sumit.co/api/search/songs?query=Imagine'',
       Trying Stremio, Fetch (firstStremio @ ''/api/v1/videos/abc'')]) \<and>
   handler AudioJs stremioWorld (getRequest (Some ''abc'') (Some ''Imagine'') None None) =
     (respond 200 (InstanceSuccess stremioAnswer),
      [Trying JioSaavn, Fetch ''https://saavn.sumit.co/api/search/songs?query=Imagine'',
       Trying Stremio, Fetch (firstStremio @ ''/api/v1/videos/abc'')]) \<and>
   strategiesTried
     (snd (handler AudioJs stremioWorld (getRequest (Some ''abc'') (Some ''Imagine'') None None)))
     = [JioSaavn, Stremio]"
proof -
  let ?req = "getRequest (Some ''abc'') (Some ''Imagine'') None None"
  have h1: "q_method ?req = ''GET''" and h2: "q_id ?req = Some ''abc''"
    and q: "q_title ?req = Some ''Imagine''" "q_author ?req = None" "q_duration ?req = None"
    by (simp_all add: getRequest_def)
  have h3: "''abc'' \<noteq> []" by simp
  have sf: "saavnFailed AudioJs stremioWorld (Some ''Imagine'') None None" by code_simp
  have so: "stremioOutcome AudioJs stremioWorld ''abc'' (Some ''Imagine'') None None =
     (Inr stremioAnswer,
      [Trying JioSaavn, Fetch ''https://saavn.sumit.co/api/search/songs?query=Imagine'',
       Trying Stremio, Fetch (firstStremio @ ''/api/v1/videos/abc'')])"
    by code_simp
  from C5_strategy_order[OF h1 h2 h3, of AudioJs stremioWorld] sf so h1 h2
  show ?thesis by (simp add: q)
qed

theorem C7_witness:
  "q_method (getRequest (Some ''abc'') (Some ''Imagine'') (Some ''John Lennon'') (Some ''183''))
     = ''GET'' \<and>
   q_id (getRequest (Some ''abc'') (Some ''Imagine'') (Some ''John Lennon'') (Some ''183''))
     = Some ''abc'' \<and>
   ''abc'' \<noteq> [] \<and>
   saavnFailed Part000 deadWorld (Some ''Imagine'') (Some ''John Lennon'') (Some ''183'') \<and>
   isl (fst (stremioOutcome Part000 deadWorld ''abc'' (Some ''Imagine'') (Some ''John Lennon'')
              (Some ''183''))) \<and>
   isl (fst (invidiousOutcome Part000 deadWorld ''abc'' (Some ''Imagine'') (Some ''John Lennon'')
              (Some ''183''))) \<and>
   fst (handler Part000 deadWorld
          (getRequest (Some ''abc'') (Some ''Imagine'') (Some ''John Lennon'') (Some ''183''))) =
     \<lparr> status = 404, headers = corsHeaders,
       body = NotFoundBody False ''Could not fetch audio from any source''
                ''failed'' ''failed'' ''failed'' \<rparr> \<and>
   fst (handler Part000 deadWorld (getRequest (Some ''abc'') None None None)) =
     \<lparr> status = 404, headers = corsHeaders,
       body = NotFoundBody False ''Could not fetch audio from any source''
                ''skipped'' ''failed'' ''failed'' \<rparr>"
proof -
  let ?req = "getRequest (Some ''abc'') (Some ''Imagine'') (Some ''John Lennon'') (Some ''183'')"
  let ?req2 = "getRequest (Some ''abc'') None None None"
  have h1: "q_method ?req = ''GET''" and h2: "q_id ?req = Some ''abc''"
    and q: "q_title ?req = Some ''Imagine''" "q_author ?req = Some ''John Lennon''"
      "q_duration ?req = Some ''183''"
    and g1: "q_method ?req2 = ''GET''" and g2: "q_id ?req2 = Some ''abc''"
    and q2: "q_title ?req2 = None" "q_author ?req2 = None" "q_duration ?req2 = None"
    by (simp_all add: getRequest_def)
  have h3: "''abc'' \<noteq> []" by simp
  have a1: "saavnFailed Part000 deadWorld (Some ''Imagine'') (Some ''John Lennon'') (Some ''183'')"
    by code_simp
  have a2: "isl (fst (stremioOutcome Part000 deadWorld ''abc'' (Some ''Imagine'')
              (Some ''John Lennon'') (Some ''183'')))"
    by code_simp
  have a3: "isl (fst (invidiousOutcome Part000 deadWorld ''abc'' (Some ''Imagine'')
              (Some ''John Lennon'') (Some ''183'')))"
    by code_simp
  have b1: "saavnFailed Part000 deadWorld None None None" by code_simp
  have b2: "isl (fst (stremioOutcome Part000 deadWorld ''abc'' None None None))" by code_simp
  have b3: "isl (fst (invidiousOutcome Part000 deadWorld ''abc'' None None None))" by code_simp
  from C7_all_failed[OF h1 h2 h3, of Part000 deadWorld] a1 a2 a3
    C7_all_failed[OF g1 g2 h3, of Part000 deadWorld] b1 b2 b3 h1 h2
  show ?thesis by (simp add: q q2)
qed

theorem C8_witness:
  "q_method (getRequest None (Some ''Imagine'') (Some ''John Lennon'') (Some ''183'')) = ''GET'' \<and>
   \<not> truthy (q_id (getRequest None (Some ''Imagine'') (Some ''John Lennon'') (Some ''183''))) \<and>
   \<not> truthy (q_id (getRequest (Some []) None None None)) \<and>
   handler Part000 stremioWorld
       (getRequest None (Some ''Imagine'') (Some ''John Lennon'') (Some ''183'')) =
     (respond 400 (ErrorBody ''Missing required parameter: id''), []) \<and>
   handler AudioJs stremioWorld (getRequest (Some []) None None None) =
     (respond 400 (ErrorBody ''Missing required parameter: id''), [])"
proof -
  let ?req = "getRequest None (Some ''Imagine'') (Some ''John Lennon'') (Some ''183'')"
  let ?req2 = "getRequest (Some []) None None None"
  have h1: "q_method ?req = ''GET''" and h2: "\<not> truthy (q_id ?req)"
    and g1: "q_method ?req2 = ''GET''" and g2: "\<not> truthy (q_id ?req2)"
    by (simp_all add: getRequest_def)
  from C8_missing_id[OF h1 h2, of Part000 stremioWorld]
    C8_missing_id[OF g1 g2, of AudioJs stremioWorld] h1 h2 g2
  show ?thesis by simp
qed

subsection \<open>The instance lists\<close>

text \<open>
  The list of \<^verbatim>\<open>api/audio.js\<close> names its first instance a second time at the end; the
  lists of the other versions and the Invidious list name every instance once.
\<close>

lemma instance_lists:
  "distinct INVIDIOUS_INSTANCES \<and> distinct (STREMIO_INSTANCES Part000) \<and>
   distinct (STREMIO_INSTANCES Part001) \<and> \<not> distinct (STREMIO_INSTANCES AudioJs)"
  by code_simp

text \<open>
  Claim C6 on \<^verbatim>\<open>api/audio.js\<close>: when no instance answers, the adapter asks the first
  Stremio instance twice within one request before it reports exhaustion, where
  \<^verbatim>\<open>part_000\<close> asks each instance once.
\<close>

theorem C6_instance_asked_twice:
  "fetchFromStremio AudioJs deadWorld ''abc'' [] =
     (Inl (ExhaustedFailure ''stremio''),
      [Fetch (firstStremio @ ''/api/v1/videos/abc''),
       Fetch (secondStremio @ ''/api/v1/videos/abc''),
       Fetch (firstStremio @ ''/api/v1/videos/abc'')]) \<and>
   fetchFromStremio Part000 deadWorld ''abc'' [] =
     (Inl (ExhaustedFailure ''stremio''),
      [Fetch (firstStremio @ ''/api/v1/videos/abc''),
       Fetch (secondStremio @ ''/api/v1/videos/abc'')])"
  by code_simp

end
